theory Spec2Isabelle
  imports Main "HOL-Library.Word"
begin

section \<open>Exceptions and results\<close>

text \<open>
  The decorators of \<^verbatim>\<open>cli_code/cli_decorators.py\<close> catch some exception classes and let
  every other one propagate. An exception is a class together with its \<^verbatim>\<open>str()\<close>; a
  constructor stands for the class and its subclasses. \<^verbatim>\<open>ChecksumError\<close> comes from
  \<^verbatim>\<open>cli_code.dds_exceptions\<close> and is taken as a class of its own (not a
  \<^verbatim>\<open>ValueError\<close>). A call that raises is \<open>Inl\<close>, a call that returns is \<open>Inr\<close>.
\<close>

datatype exn =
    ValueError string
  | ChecksumError string
  | KeyError string
  | TypeError string
  | Exception string
  | Boto3Error string
  | BotoCoreError string
  | OSError string

fun str :: "exn \<Rightarrow> string" where
  "str (ValueError m) = m"
| "str (ChecksumError m) = m"
| "str (KeyError m) = m"
| "str (TypeError m) = m"
| "str (Exception m) = m"
| "str (Boto3Error m) = m"
| "str (BotoCoreError m) = m"
| "str (OSError m) = m"

fun is_ValueError :: "exn \<Rightarrow> bool" where
  "is_ValueError (ValueError m) = True"
| "is_ValueError e = False"

fun is_ChecksumError :: "exn \<Rightarrow> bool" where
  "is_ChecksumError (ChecksumError m) = True"
| "is_ChecksumError e = False"

section \<open>checksum\_verification\_required\<close>

type_synonym bytes = "8 word list"

text \<open>
  What \<^verbatim>\<open>func(*args, **kwargs)\<close> hands back: a one-pass iterator that yields chunks and
  then either stops or raises.
\<close>

datatype chunk_iter =
    StopIteration
  | Yield bytes chunk_iter
  | IterRaise exn

text \<open>
  \<^verbatim>\<open>hashlib.sha256\<close> is a library object: \<open>sha_new\<close> is \<^verbatim>\<open>hashlib.sha256()\<close>,
  \<open>sha_update\<close> is \<^verbatim>\<open>checksum.update(chunk)\<close> and \<open>sha_hexdigest\<close> is
  \<^verbatim>\<open>checksum.hexdigest()\<close>.
\<close>

record 'h hashlib =
  sha_new :: 'h
  sha_update :: "'h \<Rightarrow> bytes \<Rightarrow> 'h"
  sha_hexdigest :: "'h \<Rightarrow> string"

text \<open>The loop \<^verbatim>\<open>for chunk in chunks: checksum.update(chunk)\<close>.\<close>

fun update_all :: "('h \<Rightarrow> bytes \<Rightarrow> 'h) \<Rightarrow> 'h \<Rightarrow> chunk_iter \<Rightarrow> exn + 'h" where
  "update_all upd h StopIteration = Inr h"
| "update_all upd h (Yield chunk rest) = update_all upd (upd h chunk) rest"
| "update_all upd h (IterRaise e) = Inl e"

definition checksum_failed :: string where
  "checksum_failed = ''Checksum verification failed. File compromised.''"

text \<open>
  The body of the outer \<^verbatim>\<open>try\<close> of \<^verbatim>\<open>verify_checksum\<close> (lines 49-70): the values of
  \<^verbatim>\<open>(done, message)\<close> when the block ends, or the exception that leaves it. The inner
  \<^verbatim>\<open>except ValueError\<close> keeps the exception's text as the message.
\<close>

definition verify_checksum_try ::
  "'h hashlib \<Rightarrow> exn + chunk_iter \<Rightarrow> string \<Rightarrow> bool \<Rightarrow> exn + (bool \<times> string)" where
  "verify_checksum_try H func_result correct_checksum do_verify =
     (case func_result of
        Inl e \<Rightarrow> Inl e
      | Inr chunks \<Rightarrow>
          if do_verify then
            (case update_all (sha_update H) (sha_new H) chunks of
               Inl e \<Rightarrow> if is_ValueError e then Inr (False, str e) else Inl e
             | Inr checksum \<Rightarrow>
                 if sha_hexdigest H checksum \<noteq> correct_checksum
                 then Inr (False, checksum_failed)
                 else Inr (True, []))
          else Inr (False, []))"

text \<open>
  \<^verbatim>\<open>verify_checksum\<close> (lines 45-79). \<^verbatim>\<open>except ChecksumError\<close> turns that exception into
  the message; the \<^verbatim>\<open>else\<close> clause of the outer \<^verbatim>\<open>try\<close> runs whenever the block ended
  without an exception and assigns \<^verbatim>\<open>done = True\<close>.
\<close>

definition verify_checksum ::
  "'h hashlib \<Rightarrow> exn + chunk_iter \<Rightarrow> string \<Rightarrow> bool \<Rightarrow> exn + (bool \<times> string)" where
  "verify_checksum H func_result correct_checksum do_verify =
     (case verify_checksum_try H func_result correct_checksum do_verify of
        Inl e \<Rightarrow> if is_ChecksumError e then Inr (False, str e) else Inl e
      | Inr (done, message) \<Rightarrow> Inr (True, message))"

text \<open>An iterator that yields the chunks of a list and stops.\<close>

fun chunks_of :: "bytes list \<Rightarrow> chunk_iter" where
  "chunks_of [] = StopIteration"
| "chunks_of (c # cs) = Yield c (chunks_of cs)"


section \<open>The status store\<close>

text \<open>
  \<^verbatim>\<open>self.status\<close> is a dictionary from a file to that file's record, itself a dictionary
  with the keys \<^verbatim>\<open>cancel\<close>, \<^verbatim>\<open>started\<close>, \<^verbatim>\<open>message\<close>, \<^verbatim>\<open>failed_op\<close> and one
  key per sub-operation, whose value is a dictionary with \<^verbatim>\<open>started\<close> and \<^verbatim>\<open>done\<close>.
  The four fixed keys are fields of a record, \<^verbatim>\<open>failed_op = None\<close> is \<open>None\<close>, and the
  sub-operation keys are the map \<open>ops\<close>. Every file has a record of its own (no two
  keys share one dictionary object).
\<close>

record op_record =
  op_started :: bool
  op_done :: bool

record file_record =
  cancel :: bool
  started :: bool
  message :: string
  failed_op :: "string option"
  ops :: "string \<rightharpoonup> op_record"

text \<open>
  The attributes of \<^verbatim>\<open>self\<close> that \<^verbatim>\<open>verify_proceed\<close> and \<^verbatim>\<open>update_status\<close> read.
  A decorated method receives \<^verbatim>\<open>self\<close> and may change it: it maps the object before the
  call to what it returns or raises and the object after the call.
\<close>

record transfer =
  stop_doing :: bool
  break_on_fail :: bool
  status :: "string \<rightharpoonup> file_record"

type_synonym ('s, 'a) pymethod = "'s \<Rightarrow> string \<Rightarrow> (exn + 'a) \<times> 's"

text \<open>
  \<^verbatim>\<open>repr\<close> of a \<^verbatim>\<open>str\<close>, the text of a \<^verbatim>\<open>KeyError\<close>: the quote is a double quote
  when the string has a single quote and no double quote, and a single quote otherwise;
  the quote and the backslash are escaped, tab, newline and carriage return are written
  \<^verbatim>\<open>\t\<close>, \<^verbatim>\<open>\n\<close>, \<^verbatim>\<open>\r\<close>, every other control character is written \<^verbatim>\<open>\xNN\<close>. A
  character above \<^verbatim>\<open>0x7f\<close> is kept, as Python keeps a printable one.
\<close>

definition hexdigit :: "nat \<Rightarrow> char" where
  "hexdigit d = ''0123456789abcdef'' ! (d mod 16)"

definition repr_char :: "char \<Rightarrow> char \<Rightarrow> string" where
  "repr_char quote ch =
     (if ch = quote \<or> ch = CHR 0x5C then [CHR 0x5C, ch]
      else if ch = CHR 0x09 then [CHR 0x5C, CHR ''t'']
      else if ch = CHR 0x0A then [CHR 0x5C, CHR ''n'']
      else if ch = CHR 0x0D then [CHR 0x5C, CHR ''r'']
      else if (of_char ch :: nat) < 0x20 \<or> ch = CHR 0x7F
      then [CHR 0x5C, CHR ''x'', hexdigit (of_char ch div 16), hexdigit (of_char ch)]
      else [ch])"

definition repr :: "string \<Rightarrow> string" where
  "repr s =
     (let quote = (if CHR 0x27 \<in> set s \<and> CHR 0x22 \<notin> set s then CHR 0x22 else CHR 0x27)
      in [quote] @ concat (map (repr_char quote) s) @ [quote])"

text \<open>The exception of a missing key \<open>k\<close>: \<^verbatim>\<open>str(KeyError(k))\<close> is \<^verbatim>\<open>repr(k)\<close>.\<close>

definition key_error :: "string \<Rightarrow> exn" where
  "key_error k = KeyError (repr k)"

section \<open>verify\_proceed\<close>

definition cancel_message :: "string \<Rightarrow> string" where
  "cancel_message file =
     ''Cancelling upload due to file '' @ [CHR 0x27] @ file @ [CHR 0x27] @
     ''. Break-on-fail specified in call.''"

text \<open>
  The comprehension of lines 122-128: every \<^verbatim>\<open>x\<close> of \<^verbatim>\<open>self.status\<close> that is not
  cancelled, not started and not \<^verbatim>\<open>file\<close> gets \<^verbatim>\<open>cancel\<close> and \<^verbatim>\<open>message\<close> updated. The
  test and the update of \<^verbatim>\<open>x\<close> touch the record of \<^verbatim>\<open>x\<close> only, so the order of the
  keys does not matter.
\<close>

definition cancel_others ::
  "string \<Rightarrow> string \<Rightarrow> (string \<rightharpoonup> file_record) \<Rightarrow> (string \<rightharpoonup> file_record)" where
  "cancel_others msg file st =
     (\<lambda>x. case st x of
        None \<Rightarrow> None
      | Some r \<Rightarrow>
          if \<not> cancel r \<and> \<not> started r \<and> x \<noteq> file
          then Some (r\<lparr>cancel := True, message := msg\<rparr>)
          else Some r)"

text \<open>Lines 112-128: what \<^verbatim>\<open>wrapped\<close> does once \<^verbatim>\<open>func\<close> has returned a false flag.\<close>

definition cancel_failed ::
  "'a transfer_scheme \<Rightarrow> string \<Rightarrow> string \<Rightarrow> (exn + bool) \<times> 'a transfer_scheme" where
  "cancel_failed self file msg =
     (case status self file of
        None \<Rightarrow> (Inl (key_error file), self)
      | Some r \<Rightarrow>
          (let self1 = self\<lparr>status := (status self)(file \<mapsto> r\<lparr>cancel := True, message := msg\<rparr>)\<rparr>
           in if break_on_fail self1
              then (Inr False,
                    self1\<lparr>status := cancel_others (cancel_message file) file (status self1)\<rparr>)
              else (Inr False, self1)))"

text \<open>\<^verbatim>\<open>wrapped\<close> of \<^verbatim>\<open>verify_proceed\<close> (lines 89-130).\<close>

definition verify_proceed ::
  "('a transfer_scheme, bool \<times> string) pymethod \<Rightarrow> ('a transfer_scheme, bool) pymethod" where
  "verify_proceed func self file =
     (if stop_doing self then (Inr False, self)
      else
        (case status self file of
           None \<Rightarrow> (Inl (key_error file), self)
         | Some r \<Rightarrow>
             if cancel r then (Inr False, self)
             else
               (case func (self\<lparr>status := (status self)(file \<mapsto> r\<lparr>started := True\<rparr>)\<rparr>) file of
                  (Inl e, self1) \<Rightarrow> (Inl e, self1)
                | (Inr (ok_to_proceed, msg), self1) \<Rightarrow>
                    if \<not> ok_to_proceed then cancel_failed self1 file msg
                    else (Inr ok_to_proceed, self1))))"

section \<open>update\_status\<close>

definition sub_operations :: "string list" where
  "sub_operations = [''put'', ''add_file_db'', ''get'', ''update_db'']"

text \<open>Line 158: \<^verbatim>\<open>self.status[file]["failed_op"] = func.__name__\<close>.\<close>

definition set_failed_op ::
  "string \<Rightarrow> 'a transfer_scheme \<Rightarrow> string \<Rightarrow> (exn + unit) \<times> 'a transfer_scheme" where
  "set_failed_op name self file =
     (case status self file of
        None \<Rightarrow> (Inl (key_error file), self)
      | Some r \<Rightarrow> (Inr (), self\<lparr>status := (status self)(file \<mapsto> r\<lparr>failed_op := Some name\<rparr>)\<rparr>))"

text \<open>
  Lines 150 and 162: \<^verbatim>\<open>self.status[file][func.__name__].update({key: True})\<close>, with
  \<open>upd\<close> the update of the sub-operation's dictionary.
\<close>

definition update_op ::
  "string \<Rightarrow> (op_record \<Rightarrow> op_record) \<Rightarrow> 'a transfer_scheme \<Rightarrow> string
     \<Rightarrow> (exn + unit) \<times> 'a transfer_scheme" where
  "update_op name upd self file =
     (case status self file of
        None \<Rightarrow> (Inl (key_error file), self)
      | Some r \<Rightarrow>
          (case ops r name of
             None \<Rightarrow> (Inl (key_error name), self)
           | Some p \<Rightarrow>
               (Inr (), self\<lparr>status := (status self)(file \<mapsto> r\<lparr>ops := (ops r)(name \<mapsto> upd p)\<rparr>)\<rparr>)))"

text \<open>
  \<^verbatim>\<open>wrapped\<close> of \<^verbatim>\<open>update_status\<close> (lines 139-165); \<open>name\<close> is \<^verbatim>\<open>func.__name__\<close>. Past
  the first test \<open>name\<close> is one of the four sub-operations, none of them a fixed key of
  the file's record, so \<^verbatim>\<open>func.__name__ not in self.status[file]\<close> reads \<open>ops\<close>.
\<close>

definition update_status ::
  "string \<Rightarrow> ('a transfer_scheme, bool \<times> string) pymethod
     \<Rightarrow> ('a transfer_scheme, bool \<times> string) pymethod" where
  "update_status name func self file =
     (if name \<notin> set sub_operations
      then (Inl (Exception (''The function '' @ name @ '' cannot be used with this decorator.'')),
            self)
      else
        (case status self file of
           None \<Rightarrow> (Inl (key_error file), self)
         | Some r \<Rightarrow>
             if ops r name = None
             then (Inl (Exception (''No status found for function '' @ name @ ''.'')), self)
             else
               (case update_op name (\<lambda>p. p\<lparr>op_started := True\<rparr>) self file of
                  (Inl e, self1) \<Rightarrow> (Inl e, self1)
                | (Inr u, self1) \<Rightarrow>
                    (case func self1 file of
                       (Inl e, self2) \<Rightarrow> (Inl e, self2)
                     | (Inr (ok_to_continue, msg), self2) \<Rightarrow>
                         if \<not> ok_to_continue then
                           (case set_failed_op name self2 file of
                              (Inl e, self3) \<Rightarrow> (Inl e, self3)
                            | (Inr u, self3) \<Rightarrow> (Inr (ok_to_continue, msg), self3))
                         else
                           (case update_op name (\<lambda>p. p\<lparr>op_done := True\<rparr>) self2 file of
                              (Inl e, self3) \<Rightarrow> (Inl e, self3)
                            | (Inr u, self3) \<Rightarrow> (Inr (ok_to_continue, msg), self3))))))"

section \<open>A run of guarded sub-operations\<close>

text \<open>
  A caller that invokes decorated sub-operations one after the other: each attempt names
  the file, the sub-operation and the decorated function. An exception ends the run; the
  log keeps the file, the name and the returned flag of every attempt, oldest first.
\<close>

type_synonym 'a attempt = "string \<times> string \<times> ('a transfer_scheme, bool \<times> string) pymethod"

fun run_attempts ::
  "'a attempt list \<Rightarrow> 'a transfer_scheme
     \<Rightarrow> (exn + (string \<times> string \<times> bool) list) \<times> 'a transfer_scheme" where
  "run_attempts [] self = (Inr [], self)"
| "run_attempts ((file, name, func) # rest) self =
     (case update_status name func self file of
        (Inl e, self1) \<Rightarrow> (Inl e, self1)
      | (Inr (ok, msg), self1) \<Rightarrow>
          (case run_attempts rest self1 of
             (Inl e, self2) \<Rightarrow> (Inl e, self2)
           | (Inr log, self2) \<Rightarrow> (Inr ((file, name, ok) # log), self2)))"

text \<open>The flag of the most recent attempt on \<open>f\<close> in a log, when there is one.\<close>

fun last_attempt :: "(string \<times> string \<times> bool) list \<Rightarrow> string \<Rightarrow> bool option" where
  "last_attempt [] f = None"
| "last_attempt ((file, name, ok) # log) f =
     (case last_attempt log f of
        Some b \<Rightarrow> Some b
      | None \<Rightarrow> if file = f then Some ok else None)"

text \<open>The name of the most recent failed attempt on \<open>f\<close> in a log, when there is one.\<close>

fun last_failure :: "(string \<times> string \<times> bool) list \<Rightarrow> string \<Rightarrow> string option" where
  "last_failure [] f = None"
| "last_failure ((file, name, ok) # log) f =
     (case last_failure log f of
        Some n \<Rightarrow> Some n
      | None \<Rightarrow> if file = f \<and> \<not> ok then Some name else None)"

text \<open>\<^verbatim>\<open>self.status[f]["failed_op"]\<close>, for a file that has a record.\<close>

definition failed_op_of :: "'a transfer_scheme \<Rightarrow> string \<Rightarrow> string option" where
  "failed_op_of self f = (case status self f of None \<Rightarrow> None | Some r \<Rightarrow> failed_op r)"

text \<open>
  A decorated function that leaves the files of the status store and the \<^verbatim>\<open>failed_op\<close>
  of each of them as it found them.
\<close>

definition keeps_failed_op :: "('a transfer_scheme, bool \<times> string) pymethod \<Rightarrow> bool" where
  "keeps_failed_op func =
     (\<forall>self file res self1 x. func self file = (res, self1) \<longrightarrow>
        map_option failed_op (status self1 x) = map_option failed_op (status self x))"

text \<open>A function that returns \<^verbatim>\<open>(ok, msg)\<close> and touches nothing.\<close>

definition returns :: "bool \<Rightarrow> string \<Rightarrow> ('s, bool \<times> string) pymethod" where
  "returns ok msg = (\<lambda>self file. (Inr (ok, msg), self))"

section \<open>connect\_cloud\<close>

text \<open>
  \<^verbatim>\<open>boto3\<close> is a library: \<open>new_session\<close> is what \<^verbatim>\<open>boto3.session.Session()\<close> does and
  \<open>session_resource\<close> is \<^verbatim>\<open>session.resource(service_name="s3", ...)\<close> on the endpoint
  URL, the access key and the secret key.
\<close>

record ('sess, 'r) boto3 =
  new_session :: "exn + 'sess"
  session_resource :: "'sess \<Rightarrow> string option \<Rightarrow> string \<Rightarrow> string \<Rightarrow> exn + 'r"

text \<open>The attributes of \<^verbatim>\<open>self\<close> that \<^verbatim>\<open>init_resource\<close> touches; \<open>None\<close> is \<^verbatim>\<open>None\<close>.\<close>

record 'r s3connector =
  url :: "string option"
  keys :: "(string \<rightharpoonup> string) option"
  s3_message :: string
  resource :: "'r option"

text \<open>
  \<^verbatim>\<open>except (boto3.exceptions.Boto3Error, botocore.exceptions.BotoCoreError)\<close>.
\<close>

fun is_connection_error :: "exn \<Rightarrow> bool" where
  "is_connection_error (Boto3Error m) = True"
| "is_connection_error (BotoCoreError m) = True"
| "is_connection_error e = False"

text \<open>\<^verbatim>\<open>self.keys[k]\<close>: subscripting \<^verbatim>\<open>None\<close> is a \<^verbatim>\<open>TypeError\<close>.\<close>

definition get_key :: "(string \<rightharpoonup> string) option \<Rightarrow> string \<Rightarrow> exn + string" where
  "get_key ks k =
     (case ks of
        None \<Rightarrow>
          Inl (TypeError
                ([CHR 0x27] @ ''NoneType'' @ [CHR 0x27] @ '' object is not subscriptable''))
      | Some d \<Rightarrow> (case d k of None \<Rightarrow> Inl (key_error k) | Some v \<Rightarrow> Inr v))"

text \<open>The body of the \<^verbatim>\<open>try\<close> (lines 178-185): the resource, or the exception raised.\<close>

definition s3_connect :: "('sess, 'r) boto3 \<Rightarrow> ('r, 'a) s3connector_scheme \<Rightarrow> exn + 'r" where
  "s3_connect B self =
     (case new_session B of
        Inl e \<Rightarrow> Inl e
      | Inr session \<Rightarrow>
          (case get_key (keys self) ''access_key'' of
             Inl e \<Rightarrow> Inl e
           | Inr access_key \<Rightarrow>
               (case get_key (keys self) ''secret_key'' of
                  Inl e \<Rightarrow> Inl e
                | Inr secret_key \<Rightarrow> session_resource B session (url self) access_key secret_key)))"

text \<open>
  \<^verbatim>\<open>init_resource\<close> (lines 174-194). The value of a call is \<open>None\<close> for Python's
  \<^verbatim>\<open>None\<close>: the \<^verbatim>\<open>except\<close> branch has no \<^verbatim>\<open>return\<close>, the \<^verbatim>\<open>else\<close> branch returns what
  \<^verbatim>\<open>func\<close> returns.
\<close>

definition init_resource ::
  "('sess, 'r) boto3
     \<Rightarrow> (('r, 'a) s3connector_scheme \<Rightarrow> (exn + 'v option) \<times> ('r, 'a) s3connector_scheme)
     \<Rightarrow> ('r, 'a) s3connector_scheme \<Rightarrow> (exn + 'v option) \<times> ('r, 'a) s3connector_scheme" where
  "init_resource B func self =
     (case s3_connect B self of
        Inl err \<Rightarrow>
          if is_connection_error err
          then (Inr None,
                self\<lparr>url := None, keys := None,
                     s3_message := ''S3 connection failed: '' @ str err\<rparr>)
          else (Inl err, self)
      | Inr res \<Rightarrow> func (self\<lparr>resource := Some res\<rparr>))"

section \<open>subpath\_required\<close>

text \<open>
  The calls of \<^verbatim>\<open>pathlib\<close> on a file system \<open>'fs\<close>: \<open>joinpath\<close> is the operator
  \<^verbatim>\<open>/\<close>, \<open>path_exists\<close> is \<^verbatim>\<open>Path.exists()\<close> and \<open>path_mkdir\<close> is
  \<^verbatim>\<open>Path.mkdir(parents=True, exist_ok=True)\<close>, which returns the file system it leaves
  behind also when it raises.
\<close>

record 'fs pathlib =
  joinpath :: "string \<Rightarrow> string \<Rightarrow> string"
  path_exists :: "'fs \<Rightarrow> string \<Rightarrow> exn + bool"
  path_mkdir :: "'fs \<Rightarrow> string \<Rightarrow> (exn + unit) \<times> 'fs"

text \<open>
  \<^verbatim>\<open>self.filehandler.data\<close>, \<^verbatim>\<open>self.filehandler.local_destination\<close> and the file system
  the object works on, beside the attributes above.
\<close>

record 'fs getter = transfer +
  data :: "string \<rightharpoonup> (string \<rightharpoonup> string)"
  local_destination :: string
  filesystem :: 'fs

text \<open>\<^verbatim>\<open>check_and_create\<close> (lines 203-222).\<close>

definition check_and_create ::
  "'fs pathlib \<Rightarrow> (('fs, 'a) getter_scheme, bool \<times> string) pymethod
     \<Rightarrow> (('fs, 'a) getter_scheme, bool \<times> string) pymethod" where
  "check_and_create P func self file =
     (case data self file of
        None \<Rightarrow> (Inl (key_error file), self)
      | Some file_info \<Rightarrow>
          (case file_info ''subpath'' of
             None \<Rightarrow> (Inl (key_error ''subpath''), self)
           | Some subpath \<Rightarrow>
               (let full_subpath = joinpath P (local_destination self) subpath
                in case path_exists P (filesystem self) full_subpath of
                     Inl e \<Rightarrow> (Inl e, self)
                   | Inr True \<Rightarrow> func self file
                   | Inr False \<Rightarrow>
                       (case path_mkdir P (filesystem self) full_subpath of
                          (Inl (OSError m), fs1) \<Rightarrow> (Inr (False, m), self\<lparr>filesystem := fs1\<rparr>)
                        | (Inl e, fs1) \<Rightarrow> (Inl e, self\<lparr>filesystem := fs1\<rparr>)
                        | (Inr u, fs1) \<Rightarrow> func (self\<lparr>filesystem := fs1\<rparr>) file))))"

section \<open>Concrete objects for the examples\<close>

text \<open>A stand-in for a hash object: the digest is one letter per byte seen so far.\<close>

definition example_hash :: "nat hashlib" where
  "example_hash =
     \<lparr>sha_new = 0, sha_update = (\<lambda>h chunk. h + length chunk),
      sha_hexdigest = (\<lambda>h. replicate h CHR ''a'')\<rparr>"

definition example_record :: file_record where
  "example_record =
     \<lparr>cancel = False, started = False, message = [], failed_op = None,
      ops = [''put'' \<mapsto> \<lparr>op_started = False, op_done = False\<rparr>]\<rparr>"

definition example_transfer :: "bool \<Rightarrow> transfer" where
  "example_transfer bof =
     \<lparr>stop_doing = False, break_on_fail = bof,
      status = [''a'' \<mapsto> example_record, ''b'' \<mapsto> example_record, ''c'' \<mapsto> example_record]\<rparr>"

definition example_connector :: "nat s3connector" where
  "example_connector =
     \<lparr>url = Some ''https://s3.example.org'',
      keys = Some [''access_key'' \<mapsto> ''AK'', ''secret_key'' \<mapsto> ''SK''],
      s3_message = [], resource = None\<rparr>"

definition example_boto3 :: "exn + nat \<Rightarrow> (unit, nat) boto3" where
  "example_boto3 outcome =
     \<lparr>new_session = Inr (), session_resource = (\<lambda>session u ak sk. outcome)\<rparr>"

text \<open>A file system as the set of its paths; \<open>mk\<close> is what creating a directory does.\<close>

definition example_pathlib ::
  "(string set \<Rightarrow> string \<Rightarrow> (exn + unit) \<times> string set) \<Rightarrow> string set pathlib" where
  "example_pathlib mk =
     \<lparr>joinpath = (\<lambda>a b. a @ ''/'' @ b),
      path_exists = (\<lambda>fs p. Inr (p \<in> fs)),
      path_mkdir = mk\<rparr>"

definition example_getter :: "string set getter" where
  "example_getter =
     \<lparr>stop_doing = False, break_on_fail = False, status = Map.empty,
      data = [''f'' \<mapsto> [''subpath'' \<mapsto> ''sub'']],
      local_destination = ''dest'', filesystem = {}\<rparr>"

section \<open>Checksum verification\<close>

lemma update_all_chunks_of:
  "update_all upd h (chunks_of cs) = Inr (fold (\<lambda>chunk h. upd h chunk) cs h)"
  by (induction cs arbitrary: h) simp_all

text \<open>
  C1. The claim: when the digest of the chunks differs from the expected digest,
  \<^verbatim>\<open>verify_checksum\<close> with \<^verbatim>\<open>do_verify\<close> returns the flag false with the message
  "Checksum verification failed. File compromised.". The code returns that message with
  the flag true: the \<^verbatim>\<open>else\<close> clause of the outer \<^verbatim>\<open>try\<close> sets \<^verbatim>\<open>done = True\<close> after
  the mismatch branch has left it false.
\<close>

theorem verify_checksum_mismatch_reports_done:
  assumes "sha_hexdigest H (fold (\<lambda>chunk h. sha_update H h chunk) cs (sha_new H))
             \<noteq> correct_checksum"
  shows "verify_checksum H (Inr (chunks_of cs)) correct_checksum True
           = Inr (True, ''Checksum verification failed. File compromised.'')"
  using assms
  by (simp add: verify_checksum_def verify_checksum_try_def update_all_chunks_of
      checksum_failed_def)

theorem verify_checksum_mismatch_reports_done_witness:
  "sha_hexdigest example_hash
     (fold (\<lambda>chunk h. sha_update example_hash h chunk) [[1, 2], [3]] (sha_new example_hash))
     = ''aaa''
   \<and> verify_checksum example_hash (Inr (chunks_of [[1, 2], [3]])) ''aa'' True
       = Inr (True, ''Checksum verification failed. File compromised.'')"
  using verify_checksum_mismatch_reports_done [of example_hash "[[1, 2], [3]]" "''aa''"]
  by (simp add: example_hash_def)

text \<open>
  C6. With \<^verbatim>\<open>do_verify\<close> false the result of \<^verbatim>\<open>verify_checksum\<close> is the same for any
  two chunk iterators the inner function returns (also one that would raise when read),
  any two hash objects and any two expected digests: it is \<^verbatim>\<open>(True, "")\<close>. When the
  inner function raises, the result depends on the exception only.
\<close>

theorem verify_checksum_no_verify_ignores_chunks:
  "verify_checksum H1 (Inr chunks1) digest1 False
     = verify_checksum H2 (Inr chunks2) digest2 False
   \<and> verify_checksum H1 (Inr chunks1) digest1 False = Inr (True, [])
   \<and> verify_checksum H1 (Inl e) digest1 False = verify_checksum H2 (Inl e) digest2 False"
  by (simp add: verify_checksum_def verify_checksum_try_def)

section \<open>The per-file guard\<close>

text \<open>
  C2. Files \<open>a\<close>, \<open>b\<close>, \<open>c\<close> are unstarted and not cancelled, the interrupt flag is
  unset, and the guarded function on \<open>a\<close> returns the flag false with \<open>msg\<close>, leaving
  the records of \<open>b\<close> and \<open>c\<close> as they were. Then the guard returns false and \<open>a\<close> is
  cancelled with \<open>msg\<close>; with break-on-fail, \<open>b\<close> and \<open>c\<close> are cancelled with the
  cancellation message; without it, no record but the one of \<open>a\<close> changes.
\<close>

theorem verify_proceed_break_on_fail_scope:
  assumes "\<not> stop_doing self"
    and "status self a = Some ra" "\<not> started ra" "\<not> cancel ra"
    and "status self b = Some rb" "\<not> started rb" "\<not> cancel rb"
    and "status self c = Some rc" "\<not> started rc" "\<not> cancel rc"
    and "a \<noteq> b" "a \<noteq> c"
    and "func (self\<lparr>status := (status self)(a \<mapsto> ra\<lparr>started := True\<rparr>)\<rparr>) a
           = (Inr (False, msg), self1)"
    and "status self1 a = Some ra1" "status self1 b = Some rb" "status self1 c = Some rc"
  shows "fst (verify_proceed func self a) = Inr False \<and>
         status (snd (verify_proceed func self a)) a
           = Some (ra1\<lparr>cancel := True, message := msg\<rparr>) \<and>
         (if break_on_fail self1
          then status (snd (verify_proceed func self a)) b
                 = Some (rb\<lparr>cancel := True, message := cancel_message a\<rparr>) \<and>
               status (snd (verify_proceed func self a)) c
                 = Some (rc\<lparr>cancel := True, message := cancel_message a\<rparr>)
          else status (snd (verify_proceed func self a)) b = Some rb \<and>
               status (snd (verify_proceed func self a)) c = Some rc \<and>
               (\<forall>x. x \<noteq> a \<longrightarrow> status (snd (verify_proceed func self a)) x = status self1 x))"
  using assms
  by (simp add: verify_proceed_def cancel_failed_def cancel_others_def Let_def)


theorem verify_proceed_break_on_fail_scope_witness:
  "fst (verify_proceed (returns False ''boom'') (example_transfer True) ''a'') = Inr False
   \<and> status (snd (verify_proceed (returns False ''boom'') (example_transfer True) ''a'')) ''a''
       = Some (example_record\<lparr>started := True, cancel := True, message := ''boom''\<rparr>)
   \<and> status (snd (verify_proceed (returns False ''boom'') (example_transfer True) ''a'')) ''b''
       = Some (example_record\<lparr>cancel := True, message := cancel_message ''a''\<rparr>)
   \<and> status (snd (verify_proceed (returns False ''boom'') (example_transfer True) ''a'')) ''c''
       = Some (example_record\<lparr>cancel := True, message := cancel_message ''a''\<rparr>)
   \<and> fst (verify_proceed (returns False ''boom'') (example_transfer False) ''a'') = Inr False
   \<and> status (snd (verify_proceed (returns False ''boom'') (example_transfer False) ''a'')) ''a''
       = Some (example_record\<lparr>started := True, cancel := True, message := ''boom''\<rparr>)
   \<and> status (snd (verify_proceed (returns False ''boom'') (example_transfer False) ''a'')) ''b''
       = Some example_record
   \<and> status (snd (verify_proceed (returns False ''boom'') (example_transfer False) ''a'')) ''c''
       = Some example_record"
  using
    verify_proceed_break_on_fail_scope [of "example_transfer True" "''a''" example_record
      "''b''" example_record "''c''" example_record "returns False ''boom''" "''boom''"
      "(example_transfer True)\<lparr>status :=
         (status (example_transfer True))(''a'' \<mapsto> example_record\<lparr>started := True\<rparr>)\<rparr>"
      "example_record\<lparr>started := True\<rparr>"]
    verify_proceed_break_on_fail_scope [of "example_transfer False" "''a''" example_record
      "''b''" example_record "''c''" example_record "returns False ''boom''" "''boom''"
      "(example_transfer False)\<lparr>status :=
         (status (example_transfer False))(''a'' \<mapsto> example_record\<lparr>started := True\<rparr>)\<rparr>"
      "example_record\<lparr>started := True\<rparr>"]
  by (simp add: example_transfer_def example_record_def returns_def)

text \<open>
  C4. For a file whose record has \<^verbatim>\<open>cancel\<close> set, the guard returns false and the
  object is what it was, whatever the guarded function is: the function is not called.
\<close>

theorem verify_proceed_cancelled_noop:
  assumes "status self f = Some r" and "cancel r"
  shows "verify_proceed func self f = (Inr False, self)"
  using assms by (simp add: verify_proceed_def)

theorem verify_proceed_cancelled_noop_witness:
  "status ((example_transfer True)\<lparr>status := [''a'' \<mapsto> example_record\<lparr>cancel := True\<rparr>]\<rparr>) ''a''
     = Some (example_record\<lparr>cancel := True\<rparr>)
   \<and> cancel (example_record\<lparr>cancel := True\<rparr>)
   \<and> verify_proceed (returns True [])
         ((example_transfer True)\<lparr>status := [''a'' \<mapsto> example_record\<lparr>cancel := True\<rparr>]\<rparr>) ''a''
       = (Inr False, (example_transfer True)\<lparr>status := [''a'' \<mapsto> example_record\<lparr>cancel := True\<rparr>]\<rparr>)"
  using verify_proceed_cancelled_noop
    [of "(example_transfer True)\<lparr>status := [''a'' \<mapsto> example_record\<lparr>cancel := True\<rparr>]\<rparr>"
        "''a''" "example_record\<lparr>cancel := True\<rparr>" "returns True []"]
  by simp

text \<open>
  C5. The bulk cancellation of break-on-fail leaves a record as it is when the file is
  started, when it is already cancelled, and when it is the file that failed.
\<close>

theorem cancel_others_leaves_started_cancelled_and_trigger:
  assumes "st x = Some r" and "started r \<or> cancel r \<or> x = file"
  shows "cancel_others msg file st x = Some r"
  using assms by (auto simp add: cancel_others_def)

theorem cancel_others_leaves_started_cancelled_and_trigger_witness:
  "cancel_others ''stop'' ''a''
      [''a'' \<mapsto> example_record, ''b'' \<mapsto> example_record\<lparr>started := True\<rparr>,
       ''c'' \<mapsto> example_record\<lparr>cancel := True, message := ''old''\<rparr>] ''a''
     = Some example_record
   \<and> cancel_others ''stop'' ''a''
      [''a'' \<mapsto> example_record, ''b'' \<mapsto> example_record\<lparr>started := True\<rparr>,
       ''c'' \<mapsto> example_record\<lparr>cancel := True, message := ''old''\<rparr>] ''b''
     = Some (example_record\<lparr>started := True\<rparr>)
   \<and> cancel_others ''stop'' ''a''
      [''a'' \<mapsto> example_record, ''b'' \<mapsto> example_record\<lparr>started := True\<rparr>,
       ''c'' \<mapsto> example_record\<lparr>cancel := True, message := ''old''\<rparr>] ''c''
     = Some (example_record\<lparr>cancel := True, message := ''old''\<rparr>)"
  using
    cancel_others_leaves_started_cancelled_and_trigger
      [of "[''a'' \<mapsto> example_record, ''b'' \<mapsto> example_record\<lparr>started := True\<rparr>,
            ''c'' \<mapsto> example_record\<lparr>cancel := True, message := ''old''\<rparr>]"
          "''a''" example_record "''a''" "''stop''"]
    cancel_others_leaves_started_cancelled_and_trigger
      [of "[''a'' \<mapsto> example_record, ''b'' \<mapsto> example_record\<lparr>started := True\<rparr>,
            ''c'' \<mapsto> example_record\<lparr>cancel := True, message := ''old''\<rparr>]"
          "''b''" "example_record\<lparr>started := True\<rparr>" "''a''" "''stop''"]
    cancel_others_leaves_started_cancelled_and_trigger
      [of "[''a'' \<mapsto> example_record, ''b'' \<mapsto> example_record\<lparr>started := True\<rparr>,
            ''c'' \<mapsto> example_record\<lparr>cancel := True, message := ''old''\<rparr>]"
          "''c''" "example_record\<lparr>cancel := True, message := ''old''\<rparr>" "''a''" "''stop''"]
  by simp

section \<open>The sub-operation guard\<close>

text \<open>
  C7. For a function name outside the four sub-operations the guard raises
  \<^verbatim>\<open>Exception\<close> and the object is what it was, whatever the status store holds and
  whatever the function is.
\<close>

theorem update_status_rejects_unknown_name:
  assumes "name \<notin> set sub_operations"
  shows "update_status name func self file
           = (Inl (Exception (''The function '' @ name @
                 '' cannot be used with this decorator.'')), self)"
  using assms by (simp add: update_status_def)

theorem update_status_rejects_unknown_name_witness:
  "''remove'' \<notin> set sub_operations
   \<and> update_status ''remove'' (returns True []) (example_transfer False) ''a''
       = (Inl (Exception ''The function remove cannot be used with this decorator.''),
          example_transfer False)"
  using update_status_rejects_unknown_name
    [of "''remove''" "returns True []" "example_transfer False" "''a''"]
  by (simp add: sub_operations_def)


lemma update_op_failed_op:
  assumes "update_op name upd self file = (res, self1)"
  shows "map_option failed_op (status self1 x) = map_option failed_op (status self x)"
  using assms by (auto simp add: update_op_def split: option.splits)

lemma set_failed_op_failed_op:
  assumes "set_failed_op name self file = (Inr u, self1)"
  shows "map_option failed_op (status self1 x) =
           (if x = file then Some (Some name) else map_option failed_op (status self x))"
  using assms by (auto simp add: set_failed_op_def split: option.splits)

text \<open>
  One guarded call that returns: a false flag writes the name into \<^verbatim>\<open>failed_op\<close> of the
  file, a true flag writes nothing there.
\<close>

lemma update_status_failed_op:
  assumes "update_status name func self file = (Inr (ok, msg), self1)"
    and "keeps_failed_op func"
  shows "map_option failed_op (status self1 x) =
           (if x = file \<and> \<not> ok then Some (Some name)
            else map_option failed_op (status self x))"
proof -
  from assms(1) obtain sa sb u where
    a: "update_op name (\<lambda>p. p\<lparr>op_started := True\<rparr>) self file = (Inr u, sa)"
    and b: "func sa file = (Inr (ok, msg), sb)"
    and c: "if \<not> ok then set_failed_op name sb file = (Inr (), self1)
            else update_op name (\<lambda>p. p\<lparr>op_done := True\<rparr>) sb file = (Inr (), self1)"
    by (auto simp add: update_status_def split: if_splits option.splits prod.splits sum.splits)
  have started_step: "map_option failed_op (status sa x) = map_option failed_op (status self x)"
    using a by (rule update_op_failed_op)
  have func_step: "map_option failed_op (status sb x) = map_option failed_op (status sa x)"
    using b assms(2) unfolding keeps_failed_op_def by blast
  show ?thesis
  proof (cases ok)
    case True
    with c have "update_op name (\<lambda>p. p\<lparr>op_done := True\<rparr>) sb file = (Inr (), self1)"
      by simp
    from update_op_failed_op [OF this] started_step func_step True show ?thesis
      by simp
  next
    case False
    with c have "set_failed_op name sb file = (Inr (), self1)"
      by simp
    from set_failed_op_failed_op [OF this] started_step func_step False show ?thesis
      by simp
  qed
qed

lemma run_attempts_failed_op:
  assumes "run_attempts as self = (Inr log, self1)"
    and "\<forall>(fl, name, func) \<in> set as. keeps_failed_op func"
  shows "map_option failed_op (status self1 f) =
           (case last_failure log f of
              None \<Rightarrow> map_option failed_op (status self f)
            | Some n \<Rightarrow> Some (Some n))"
  using assms
proof (induction as arbitrary: self log)
  case Nil
  then show ?case by simp
next
  case (Cons att as)
  obtain fl name func where att: "att = (fl, name, func)"
    by (cases att)
  from Cons.prems(1) att obtain ok msg sa log' where
    st: "update_status name func self fl = (Inr (ok, msg), sa)"
    and rest: "run_attempts as sa = (Inr log', self1)"
    and log: "log = (fl, name, ok) # log'"
    by (auto split: prod.splits sum.splits)
  from Cons.prems(2) att have k: "keeps_failed_op func"
    and ks: "\<forall>(fl, name, func) \<in> set as. keeps_failed_op func"
    by auto
  have ih: "map_option failed_op (status self1 f) =
              (case last_failure log' f of
                 None \<Rightarrow> map_option failed_op (status sa f)
               | Some n \<Rightarrow> Some (Some n))"
    using Cons.IH [OF rest ks] .
  from update_status_failed_op [OF st k, of f] ih log show ?case
    by (simp split: option.splits)
qed

lemma last_failure_None:
  "last_failure log f = None \<longleftrightarrow> (\<forall>(fl, name, ok) \<in> set log. fl = f \<longrightarrow> ok)"
  by (induction log) (auto split: option.splits if_splits)

lemma keeps_failed_op_returns: "keeps_failed_op (returns ok msg)"
  by (simp add: keeps_failed_op_def returns_def)

text \<open>
  C3, as stated, fails: on file \<open>a\<close> the sub-operation \<open>put\<close> is attempted twice, the
  first attempt returns failure and the second success. The most recent attempt
  succeeded, and \<^verbatim>\<open>failed_op\<close> is still \<open>put\<close>.
\<close>

theorem failed_op_survives_success:
  "fst (run_attempts [(''a'', ''put'', returns False ''boom''), (''a'', ''put'', returns True [])]
         (example_transfer False))
     = Inr [(''a'', ''put'', False), (''a'', ''put'', True)]
   \<and> last_attempt [(''a'', ''put'', False), (''a'', ''put'', True)] ''a'' = Some True
   \<and> failed_op_of
        (snd (run_attempts
               [(''a'', ''put'', returns False ''boom''), (''a'', ''put'', returns True [])]
               (example_transfer False))) ''a''
       = Some ''put''"
  by (simp add: update_status_def sub_operations_def example_transfer_def example_record_def
      returns_def update_op_def set_failed_op_def failed_op_of_def)

text \<open>
  C3, amended. A failed attempt sets \<^verbatim>\<open>failed_op\<close> and the guard never clears it: after
  a run of guarded sub-operations that all return, on functions that leave \<^verbatim>\<open>failed_op\<close>
  alone, a file whose \<^verbatim>\<open>failed_op\<close> was unset has \<^verbatim>\<open>failed_op\<close> equal to the name of the
  most recent failed attempt on it; so \<^verbatim>\<open>failed_op\<close> is set if and only if some attempt
  on that file returned failure.
\<close>

theorem failed_op_names_last_failure:
  assumes "run_attempts as self = (Inr log, self1)"
    and "\<forall>(fl, name, func) \<in> set as. keeps_failed_op func"
    and "status self f = Some r" and "failed_op r = None"
  shows "\<exists>r1. status self1 f = Some r1 \<and> failed_op r1 = last_failure log f \<and>
           (failed_op r1 \<noteq> None \<longleftrightarrow> (\<exists>(fl, name, ok) \<in> set log. fl = f \<and> \<not> ok))"
proof -
  have eq: "map_option failed_op (status self1 f) = Some (last_failure log f)"
    using run_attempts_failed_op [OF assms(1) assms(2), of f] assms(3) assms(4)
    by (simp split: option.splits)
  then obtain r1 where r1: "status self1 f = Some r1" "failed_op r1 = last_failure log f"
    by auto
  have "last_failure log f \<noteq> None \<longleftrightarrow> (\<exists>(fl, name, ok) \<in> set log. fl = f \<and> \<not> ok)"
    unfolding last_failure_None by auto
  with r1 show ?thesis
    by simp
qed

theorem failed_op_names_last_failure_witness:
  "map_option failed_op
     (status (snd (run_attempts
                [(''a'', ''put'', returns False ''boom''), (''a'', ''put'', returns True []),
                 (''b'', ''put'', returns True [])]
                (example_transfer False))) ''a'')
     = Some (Some ''put'')"
proof -
  let ?as = "[(''a'', ''put'', returns False ''boom''), (''a'', ''put'', returns True []),
              (''b'', ''put'', returns True [])] :: unit attempt list"
  let ?log = "[(''a'', ''put'', False), (''a'', ''put'', True), (''b'', ''put'', True)]"
  have run: "run_attempts ?as (example_transfer False)
               = (Inr ?log, snd (run_attempts ?as (example_transfer False)))"
    by (simp add: update_status_def sub_operations_def example_transfer_def example_record_def
        returns_def update_op_def set_failed_op_def)
  have keeps: "\<forall>(fl, name, func) \<in> set ?as. keeps_failed_op func"
    by (simp add: keeps_failed_op_returns)
  have rec: "status (example_transfer False) ''a'' = Some example_record"
    "failed_op example_record = None"
    by (simp_all add: example_transfer_def example_record_def)
  from failed_op_names_last_failure [OF run keeps rec] show ?thesis
    by auto
qed


section \<open>The connection guard\<close>

text \<open>
  C8. When the connection attempt raises a \<^verbatim>\<open>Boto3Error\<close> or a \<^verbatim>\<open>BotoCoreError\<close>,
  \<^verbatim>\<open>url\<close> and \<^verbatim>\<open>keys\<close> are set to \<^verbatim>\<open>None\<close>, the message is stored and the result does
  not depend on the wrapped function, which is not called. When the attempt gives a
  resource, the resource is stored and the result is the wrapped function's on that
  object.
\<close>

theorem init_resource_connection_guard:
  "(s3_connect B self = Inl err \<and> is_connection_error err \<longrightarrow>
      init_resource B func self
        = (Inr None,
           self\<lparr>url := None, keys := None,
                s3_message := ''S3 connection failed: '' @ str err\<rparr>))
   \<and> (s3_connect B self = Inr res \<longrightarrow>
        init_resource B func self = func (self\<lparr>resource := Some res\<rparr>))"
  by (simp add: init_resource_def)

theorem init_resource_connection_guard_witness:
  "s3_connect (example_boto3 (Inl (BotoCoreError ''timeout''))) example_connector
     = Inl (BotoCoreError ''timeout'')
   \<and> init_resource (example_boto3 (Inl (BotoCoreError ''timeout'')))
         (\<lambda>self. (Inr (Some True), self)) example_connector
       = (Inr None,
          example_connector\<lparr>url := None, keys := None,
             s3_message := ''S3 connection failed: timeout''\<rparr>)
   \<and> s3_connect (example_boto3 (Inr 7)) example_connector = Inr 7
   \<and> init_resource (example_boto3 (Inr 7)) (\<lambda>self. (Inr (Some True), self)) example_connector
       = (Inr (Some True), example_connector\<lparr>resource := Some 7\<rparr>)"
  using
    init_resource_connection_guard
      [of "example_boto3 (Inl (BotoCoreError ''timeout''))" example_connector
          "BotoCoreError ''timeout''" "\<lambda>self. (Inr (Some True), self)"]
    init_resource_connection_guard
      [of "example_boto3 (Inr 7)" example_connector _ "\<lambda>self. (Inr (Some True), self)" 7]
  by (simp add: s3_connect_def example_boto3_def example_connector_def get_key_def)

text \<open>
  C10, as stated, fails: the claim ends with "the caller cannot distinguish outcomes
  from the return value alone". With a wrapped function that returns
  \<^verbatim>\<open>(True, "done")\<close>, a failed connection gives \<^verbatim>\<open>None\<close> and an established one gives
  the pair, so the two values differ.
\<close>

theorem init_resource_failure_distinguishable:
  "fst (init_resource (example_boto3 (Inl (Boto3Error ''no credentials'')))
          (\<lambda>self. (Inr (Some (True, ''done'')), self)) example_connector)
     = Inr None
   \<and> fst (init_resource (example_boto3 (Inr 7))
          (\<lambda>self. (Inr (Some (True, ''done'')), self)) example_connector)
     = Inr (Some (True, ''done''))
   \<and> fst (init_resource (example_boto3 (Inl (Boto3Error ''no credentials'')))
          (\<lambda>self. (Inr (Some (True, ''done'')), self)) example_connector)
     \<noteq> fst (init_resource (example_boto3 (Inr 7))
          (\<lambda>self. (Inr (Some (True, ''done'')), self)) example_connector)"
  by (simp add: init_resource_def s3_connect_def example_boto3_def example_connector_def
      get_key_def)

text \<open>
  C10, amended. When the connection attempt raises a connection error, the value of
  \<^verbatim>\<open>init_resource\<close> is \<^verbatim>\<open>None\<close> and not a pair, whatever the error and the wrapped
  function are, and the text of the error is in the object's message only: two failed
  attempts have the same value. An established connection has the value of the wrapped
  function, so a failed attempt and an established one have the same value exactly when
  the wrapped function returns \<^verbatim>\<open>None\<close>.
\<close>

theorem init_resource_failure_returns_None:
  assumes "s3_connect B self = Inl err" and "is_connection_error err"
    and "s3_connect B2 self2 = Inl err2" and "is_connection_error err2"
    and "s3_connect B3 self3 = Inr res"
  shows "fst (init_resource B func self) = Inr None \<and>
         s3_message (snd (init_resource B func self)) = ''S3 connection failed: '' @ str err \<and>
         fst (init_resource B2 func2 self2) = fst (init_resource B func self) \<and>
         fst (init_resource B3 func3 self3) = fst (func3 (self3\<lparr>resource := Some res\<rparr>)) \<and>
         (fst (init_resource B3 func3 self3) = fst (init_resource B func self)
            \<longleftrightarrow> fst (func3 (self3\<lparr>resource := Some res\<rparr>)) = Inr None)"
  using assms by (simp add: init_resource_def)

theorem init_resource_failure_returns_None_witness:
  "fst (init_resource (example_boto3 (Inl (Boto3Error ''no credentials'')))
          (\<lambda>self. (Inr (Some (True, ''done'')), self)) example_connector) = Inr None
   \<and> s3_message (snd (init_resource (example_boto3 (Inl (Boto3Error ''no credentials'')))
          (\<lambda>self. (Inr (Some (True, ''done'')), self)) example_connector))
       = ''S3 connection failed: no credentials''
   \<and> fst (init_resource (example_boto3 (Inl (BotoCoreError ''timeout'')))
          (\<lambda>self. (Inr (Some (True, ''done'')), self)) example_connector) = Inr None
   \<and> fst (init_resource (example_boto3 (Inr 7))
          (\<lambda>self. (Inr None, self)) example_connector) = (Inr None :: exn + (bool \<times> string) option)
   \<and> fst (init_resource (example_boto3 (Inr 7))
          (\<lambda>self. (Inr (Some (True, ''done'')), self)) example_connector)
       = Inr (Some (True, ''done''))"
  using
    init_resource_failure_returns_None
      [of "example_boto3 (Inl (Boto3Error ''no credentials''))" example_connector
          "Boto3Error ''no credentials''"
          "example_boto3 (Inl (BotoCoreError ''timeout''))" example_connector
          "BotoCoreError ''timeout''"
          "example_boto3 (Inr 7)" example_connector 7
          "\<lambda>self. (Inr (Some (True, ''done'')), self)"
          "\<lambda>self. (Inr (Some (True, ''done'')), self)"
          "\<lambda>self. (Inr None, self)"]
    init_resource_failure_returns_None
      [of "example_boto3 (Inl (Boto3Error ''no credentials''))" example_connector
          "Boto3Error ''no credentials''"
          "example_boto3 (Inl (BotoCoreError ''timeout''))" example_connector
          "BotoCoreError ''timeout''"
          "example_boto3 (Inr 7)" example_connector 7
          "\<lambda>self. (Inr (Some (True, ''done'')), self)"
          "\<lambda>self. (Inr (Some (True, ''done'')), self)"
          "\<lambda>self. (Inr (Some (True, ''done'')), self)"]
  by (simp add: s3_connect_def example_boto3_def example_connector_def get_key_def)

section \<open>The directory guard\<close>

text \<open>
  C9. The file has a subpath and the path does not exist. If creating it succeeds, the
  guard's result is the wrapped function's on the new file system; when the path is
  still there afterwards, a second call is the wrapped function's result again, whatever
  creating a directory would do then: nothing is created. If creating the path raises
  \<^verbatim>\<open>OSError\<close>, the guard returns \<^verbatim>\<open>(False, str(err))\<close> whatever the wrapped function is.
\<close>

theorem check_and_create_idempotent:
  assumes "data self file = Some file_info" and "file_info ''subpath'' = Some subpath"
    and "p = joinpath P (local_destination self) subpath"
    and "path_exists P (filesystem self) p = Inr False"
  shows "(path_mkdir P (filesystem self) p = (Inr (), fs1) \<and>
          func (self\<lparr>filesystem := fs1\<rparr>) file = (res1, self1) \<and>
          data self1 file = data self file \<and>
          local_destination self1 = local_destination self \<and>
          path_exists P (filesystem self1) p = Inr True \<longrightarrow>
            check_and_create P func self file = (res1, self1) \<and>
            check_and_create (P\<lparr>path_mkdir := mk\<rparr>) func self1 file = func self1 file)
         \<and> (path_mkdir P (filesystem self) p = (Inl (OSError m), fs1) \<longrightarrow>
              check_and_create P func self file = (Inr (False, m), self\<lparr>filesystem := fs1\<rparr>))"
  using assms by (simp add: check_and_create_def Let_def)

theorem check_and_create_idempotent_witness:
  "check_and_create (example_pathlib (\<lambda>fs p. (Inr (), insert p fs)))
       (returns True []) example_getter ''f''
     = (Inr (True, []), example_getter\<lparr>filesystem := {''dest/sub''}\<rparr>)
   \<and> check_and_create (example_pathlib (\<lambda>fs p. (Inl (OSError ''Read-only file system''), fs)))
       (returns True []) (example_getter\<lparr>filesystem := {''dest/sub''}\<rparr>) ''f''
     = (Inr (True, []), example_getter\<lparr>filesystem := {''dest/sub''}\<rparr>)
   \<and> check_and_create (example_pathlib (\<lambda>fs p. (Inl (OSError ''Read-only file system''), fs)))
       (returns True []) example_getter ''f''
     = (Inr (False, ''Read-only file system''), example_getter)"
  using
    check_and_create_idempotent
      [of example_getter "''f''" "[''subpath'' \<mapsto> ''sub'']" "''sub''" "''dest/sub''"
          "example_pathlib (\<lambda>fs p. (Inr (), insert p fs))" "{''dest/sub''}"
          "returns True []" "Inr (True, [])" "example_getter\<lparr>filesystem := {''dest/sub''}\<rparr>"
          "\<lambda>fs p. (Inl (OSError ''Read-only file system''), fs)"]
    check_and_create_idempotent
      [of example_getter "''f''" "[''subpath'' \<mapsto> ''sub'']" "''sub''" "''dest/sub''"
          "example_pathlib (\<lambda>fs p. (Inl (OSError ''Read-only file system''), fs))" "{}"
          "returns True []" _ _ _ "''Read-only file system''"]
  by (simp add: example_pathlib_def example_getter_def returns_def)


end
